theory Spec2Isabelle
  imports Complex_Main "HOL-Library.AList"
begin

section \<open>Python values\<close>

text \<open>
  The intent-detection Lambda (\<^verbatim>\<open>src/lambda/intent-detection/index.py\<close>) works on JSON
  values: the request body, the object parsed from the model's output, the classification
  result and the items put into the two tables are all Python values built from
  \<^verbatim>\<open>None\<close>, booleans, numbers, strings, lists and dictionaries with string keys.

  A dictionary is an association list in insertion order; \<open>map_of\<close> reads it and
  \<open>AList.update\<close> is the assignment \<^verbatim>\<open>d[k] = v\<close> (an existing key keeps its
  place, a new key goes last). A Python \<^verbatim>\<open>str\<close> is a list of code points; the model
  takes a \<open>char\<close> to be one code point below 256, so a \<open>string\<close> is a text of the
  Latin-1 range. A float is kept as the real number its literal denotes; the code never
  computes with one.
\<close>

datatype pyval =
    PNone
  | PBool bool
  | PInt int
  | PFloat real
  | PStr string
  | PList "pyval list"
  | PDict "(string \<times> pyval) list"

text \<open>The exceptions the code can meet, by class.\<close>

datatype error =
    KeyError string
  | TypeError
  | AttributeError
  | JSONDecodeError
  | ClientError

text \<open>Truth value of a Python value, as \<^verbatim>\<open>if not text\<close> tests it.\<close>

fun truthy :: "pyval \<Rightarrow> bool" where
  "truthy PNone = False"
| "truthy (PBool b) = b"
| "truthy (PInt i) = (i \<noteq> 0)"
| "truthy (PFloat x) = (x \<noteq> 0)"
| "truthy (PStr s) = (s \<noteq> [])"
| "truthy (PList xs) = (xs \<noteq> [])"
| "truthy (PDict d) = (d \<noteq> [])"

text \<open>
  \<^verbatim>\<open>v[k]\<close> with a string key: a dictionary raises \<^verbatim>\<open>KeyError\<close> on a missing key,
  every other JSON value raises \<^verbatim>\<open>TypeError\<close> (not subscriptable, or indices must be
  integers).
\<close>

fun getitem :: "pyval \<Rightarrow> string \<Rightarrow> error + pyval" where
  "getitem (PDict d) k = (case map_of d k of None \<Rightarrow> Inl (KeyError k) | Some v \<Rightarrow> Inr v)"
| "getitem _ k = Inl TypeError"

text \<open>
  \<^verbatim>\<open>v.get(k, default)\<close>: only a dictionary has the method; on any other JSON value
  the attribute lookup raises \<^verbatim>\<open>AttributeError\<close>.
\<close>

fun py_get :: "pyval \<Rightarrow> string \<Rightarrow> pyval \<Rightarrow> error + pyval" where
  "py_get (PDict d) k dflt = (case map_of d k of None \<Rightarrow> Inr dflt | Some v \<Rightarrow> Inr v)"
| "py_get _ k dflt = Inl AttributeError"

text \<open>Sequencing of steps that may raise: the first exception ends the computation.\<close>

definition bind_e :: "error + 'a \<Rightarrow> ('a \<Rightarrow> error + 'b) \<Rightarrow> error + 'b" where
  "bind_e m f = (case m of Inl e \<Rightarrow> Inl e | Inr v \<Rightarrow> f v)"

section \<open>Strings\<close>

definition is_ascii_upper :: "char \<Rightarrow> bool" where
  "is_ascii_upper c = (65 \<le> (of_char c :: nat) \<and> (of_char c :: nat) \<le> 90)"

definition is_ascii_lower :: "char \<Rightarrow> bool" where
  "is_ascii_lower c = (97 \<le> (of_char c :: nat) \<and> (of_char c :: nat) \<le> 122)"

definition is_digit :: "char \<Rightarrow> bool" where
  "is_digit c = (48 \<le> (of_char c :: nat) \<and> (of_char c :: nat) \<le> 57)"

text \<open>
  \<^verbatim>\<open>str.lower()\<close> on one code point below 256: the ASCII capitals and the Latin-1
  capitals 192..222 (but the multiplication sign 215) move up by 32, everything else stays.
\<close>

definition lower_char :: "char \<Rightarrow> char" where
  "lower_char c =
     (let n = (of_char c :: nat)
      in if (65 \<le> n \<and> n \<le> 90) \<or> (192 \<le> n \<and> n \<le> 222 \<and> n \<noteq> 215)
         then char_of (n + 32) else c)"

definition str_lower :: "string \<Rightarrow> string" where
  "str_lower s = map lower_char s"

definition upper_char :: "char \<Rightarrow> char" where
  "upper_char c = (if is_ascii_lower c then char_of ((of_char c :: nat) - 32) else c)"

text \<open>
  \<^verbatim>\<open>str.title()\<close> on ASCII text: a letter that follows a letter is lowered, a letter
  that starts a run of letters is raised, other characters stay. The code applies it to
  the words of the fixed role vocabulary only.
\<close>

fun title_from :: "bool \<Rightarrow> string \<Rightarrow> string" where
  "title_from prev [] = []"
| "title_from prev (c # cs) =
     (if is_ascii_upper c \<or> is_ascii_lower c
      then (if prev then lower_char c else upper_char c) # title_from True cs
      else c # title_from False cs)"

definition str_title :: "string \<Rightarrow> string" where
  "str_title s = title_from False s"

text \<open>\<^verbatim>\<open>s.startswith(w)\<close> and the substring test \<^verbatim>\<open>w in s\<close>.\<close>

fun starts_with :: "string \<Rightarrow> string \<Rightarrow> bool" where
  "starts_with s [] = True"
| "starts_with [] (w # ws) = False"
| "starts_with (c # cs) (w # ws) = (c = w \<and> starts_with cs ws)"

fun contains :: "string \<Rightarrow> string \<Rightarrow> bool" where
  "contains [] w = (w = [])"
| "contains (c # cs) w = (starts_with (c # cs) w \<or> contains cs w)"

section \<open>The two regular expressions\<close>

text \<open>
  \<^verbatim>\<open>extract_entities\<close> uses \<^verbatim>\<open>re.findall\<close> with two patterns and reads only
  \<^verbatim>\<open>matches[0]\<close>. The patterns are built from a literal character, a character class,
  a greedy \<^verbatim>\<open>+\<close> on a class, a greedy \<^verbatim>\<open>?\<close> and concatenation. \<open>matches r s\<close>
  lists, in the order a backtracking matcher tries them, the inputs left after \<open>r\<close> has
  matched a prefix of \<open>s\<close>.
\<close>

datatype cclass = Upper | Lower | Digit

fun in_class :: "cclass \<Rightarrow> char \<Rightarrow> bool" where
  "in_class Upper c = is_ascii_upper c"
| "in_class Lower c = is_ascii_lower c"
| "in_class Digit c = is_digit c"

datatype regex =
    Eps
  | Lit char
  | Cls cclass
  | Plus cclass
  | Opt regex
  | Seq regex regex

fun matches :: "regex \<Rightarrow> string \<Rightarrow> string list" where
  "matches Eps s = [s]"
| "matches (Lit c) s = (case s of [] \<Rightarrow> [] | x # xs \<Rightarrow> if x = c then [xs] else [])"
| "matches (Cls k) s = (case s of [] \<Rightarrow> [] | x # xs \<Rightarrow> if in_class k x then [xs] else [])"
| "matches (Plus k) s =
     map (\<lambda>n. drop n s) (rev [1 ..< Suc (length (takeWhile (in_class k) s))])"
| "matches (Opt r) s = matches r s @ [s]"
| "matches (Seq r1 r2) s = concat (map (matches r2) (matches r1 s))"

text \<open>
  A pattern \<^verbatim>\<open>pre(grp)\<close> with one group, tried at the start of \<open>s\<close>: the text of the
  group in the first successful way of matching, if there is one.
\<close>

definition match_here :: "regex \<Rightarrow> regex \<Rightarrow> string \<Rightarrow> string option" where
  "match_here pre grp s =
     (case concat (map (\<lambda>s1. map (\<lambda>s2. take (length s1 - length s2) s1) (matches grp s1))
                       (matches pre s)) of
        [] \<Rightarrow> None
      | g # _ \<Rightarrow> Some g)"

text \<open>
  \<^verbatim>\<open>re.findall(pattern, text)\<close> is non-empty exactly when the pattern matches
  somewhere, and its element 0 is the group of the leftmost match: \<open>findall_first\<close> is
  \<open>None\<close> for the empty list and \<open>Some (matches[0])\<close> otherwise.
\<close>

fun findall_first :: "regex \<Rightarrow> regex \<Rightarrow> string \<Rightarrow> string option" where
  "findall_first pre grp [] = match_here pre grp []"
| "findall_first pre grp (c # cs) =
     (case match_here pre grp (c # cs) of
        Some g \<Rightarrow> Some g
      | None \<Rightarrow> findall_first pre grp cs)"

text \<open>\<^verbatim>\<open>([A-Z][a-z]+ [A-Z][a-z]+)\<close>: the whole pattern is the group.\<close>

definition name_pattern :: regex where
  "name_pattern =
     Seq (Cls Upper) (Seq (Plus Lower) (Seq (Lit CHR '' '') (Seq (Cls Upper) (Plus Lower))))"

text \<open>\<^verbatim>\<open>\$?(\d+(?:\.\d{2})?)\<close>: an optional dollar sign, then the group.\<close>

definition amount_prefix :: regex where
  "amount_prefix = Opt (Lit CHR ''$'')"

definition amount_pattern :: regex where
  "amount_pattern = Seq (Plus Digit) (Opt (Seq (Lit CHR ''.'') (Seq (Cls Digit) (Cls Digit))))"

section \<open>EntityExtractor\<close>

definition roles :: "string list" where
  "roles = [''developer'', ''engineer'', ''manager'', ''analyst'', ''designer'', ''intern'']"

text \<open>The inner loop over \<^verbatim>\<open>roles\<close>: the first role found in the lowered text.\<close>

fun find_role :: "string list \<Rightarrow> string \<Rightarrow> string option" where
  "find_role [] text_lower = None"
| "find_role (role # rest) text_lower =
     (if contains text_lower role then Some role else find_role rest text_lower)"

text \<open>
  One pass of the loop over \<^verbatim>\<open>entity_types\<close>, on the dictionary built so far. (The
  unused \<^verbatim>\<open>words = text.split()\<close> is left out.)
\<close>

definition extract_one :: "string \<Rightarrow> string \<Rightarrow> (string \<times> string) list \<Rightarrow> (string \<times> string) list" where
  "extract_one text entity_type entities =
     (if entity_type = ''employee_name'' then
        (case findall_first Eps name_pattern text of
           None \<Rightarrow> entities
         | Some m \<Rightarrow> AList.update entity_type m entities)
      else if entity_type = ''amount'' then
        (case findall_first amount_prefix amount_pattern text of
           None \<Rightarrow> entities
         | Some m \<Rightarrow> AList.update entity_type (''$'' @ m) entities)
      else if entity_type = ''role'' then
        (case find_role roles (str_lower text) of
           None \<Rightarrow> entities
         | Some role \<Rightarrow> AList.update entity_type (str_title role) entities)
      else entities)"

fun extract_loop :: "string \<Rightarrow> string list \<Rightarrow> (string \<times> string) list \<Rightarrow> (string \<times> string) list" where
  "extract_loop text [] entities = entities"
| "extract_loop text (entity_type # rest) entities =
     extract_loop text rest (extract_one text entity_type entities)"

definition extract_entities :: "string \<Rightarrow> string list \<Rightarrow> (string \<times> string) list" where
  "extract_entities text entity_types = extract_loop text entity_types []"

section \<open>FallbackClassifier\<close>

text \<open>\<^verbatim>\<open>any(word in text_lower for word in words)\<close>.\<close>

definition any_in :: "string list \<Rightarrow> string \<Rightarrow> bool" where
  "any_in words text_lower = list_ex (contains text_lower) words"

text \<open>The extractor's dictionary of strings as a Python value.\<close>

definition str_dict :: "(string \<times> string) list \<Rightarrow> pyval" where
  "str_dict d = PDict (map (\<lambda>kv. (fst kv, PStr (snd kv))) d)"

definition fallback_intent_detection :: "string \<Rightarrow> pyval" where
  "fallback_intent_detection text =
     (let text_lower = str_lower text
      in if any_in [''onboard'', ''hire'', ''new employee'', ''join''] text_lower then
           PDict [(''intent'', PStr ''HR_Onboarding''),
                  (''entities'', str_dict (extract_entities text [''employee_name'', ''role'', ''start_date''])),
                  (''confidence'', PFloat 0.8),
                  (''domain'', PStr ''HR'')]
         else if any_in [''ticket'', ''issue'', ''problem'', ''bug'', ''error''] text_lower then
           PDict [(''intent'', PStr ''IT_Ticket''),
                  (''entities'', str_dict (extract_entities text [''issue_type'', ''priority'', ''description''])),
                  (''confidence'', PFloat 0.8),
                  (''domain'', PStr ''IT'')]
         else if any_in [''expense'', ''reimburse'', ''receipt'', ''payment''] text_lower then
           PDict [(''intent'', PStr ''Finance_Expense''),
                  (''entities'', str_dict (extract_entities text [''amount'', ''category'', ''description''])),
                  (''confidence'', PFloat 0.8),
                  (''domain'', PStr ''Finance'')]
         else if any_in [''meeting'', ''schedule'', ''calendar'', ''appointment''] text_lower then
           PDict [(''intent'', PStr ''Meeting_Schedule''),
                  (''entities'', str_dict (extract_entities text [''date'', ''time'', ''attendees'', ''subject''])),
                  (''confidence'', PFloat 0.8),
                  (''domain'', PStr ''General'')]
         else
           PDict [(''intent'', PStr ''General_Query''),
                  (''entities'', PDict []),
                  (''confidence'', PFloat 0.5),
                  (''domain'', PStr ''General'')])"

section \<open>The world outside the function\<close>

text \<open>
  What one invocation gets from outside is an input of the model:
  \<^item> \<open>json_loads\<close> is \<^verbatim>\<open>json.loads\<close>, \<open>None\<close> where it raises
    \<^verbatim>\<open>JSONDecodeError\<close>;
  \<^item> \<open>model_output\<close> is the stripped \<^verbatim>\<open>outputText\<close> of the Bedrock reply, \<open>None\<close>
    when anything up to there raises (the call itself, reading the reply);
  \<^item> \<open>str_value\<close> is \<^verbatim>\<open>str()\<close> on a value that is not a string, as an f-string
    applies it, and \<open>str_error\<close> is \<^verbatim>\<open>str(e)\<close> on an exception;
  \<^item> the two \<^verbatim>\<open>uuid.uuid4()\<close> results and the three \<^verbatim>\<open>datetime.utcnow()\<close> stamps;
  \<^item> for each \<^verbatim>\<open>put_item\<close>, the exception it raises, if any.
\<close>

record env =
  json_loads :: "string \<Rightarrow> pyval option"
  model_output :: "string option"
  str_value :: "pyval \<Rightarrow> string"
  str_error :: "error \<Rightarrow> string"
  workflow_uuid :: string
  history_uuid :: string
  created_at :: string
  updated_at :: string
  history_timestamp :: string
  put_workflow_error :: "error option"
  put_history_error :: "error option"

text \<open>
  The two DynamoDB tables, each as the sequence of items put into it, oldest first (the
  table itself keeps, for each \<^verbatim>\<open>id\<close>, the last item put).
\<close>

record store =
  workflows_table :: "pyval list"
  workflow_history_table :: "pyval list"

text \<open>A value inside an f-string.\<close>

definition fmt :: "env \<Rightarrow> pyval \<Rightarrow> string" where
  "fmt env v = (case v of PStr s \<Rightarrow> s | _ \<Rightarrow> str_value env v)"

section \<open>IntentClassifier\<close>

text \<open>
  \<^verbatim>\<open>fallback_intent_detection(text)\<close> on the value the handler read from the body:
  \<^verbatim>\<open>text.lower()\<close> exists for a string only.
\<close>

definition call_fallback :: "pyval \<Rightarrow> error + pyval" where
  "call_fallback text =
     (case text of PStr s \<Rightarrow> Inr (fallback_intent_detection s) | _ \<Rightarrow> Inl AttributeError)"

definition detect_intent_with_bedrock :: "env \<Rightarrow> pyval \<Rightarrow> error + pyval" where
  "detect_intent_with_bedrock env text =
     (case model_output env of
        None \<Rightarrow> call_fallback text
      | Some generated_text \<Rightarrow>
          (case json_loads env generated_text of
             None \<Rightarrow> call_fallback text
           | Some intent_data \<Rightarrow> Inr intent_data))"

section \<open>WorkflowTemplateCatalog\<close>

definition get_workflow_title :: "env \<Rightarrow> pyval \<Rightarrow> pyval \<Rightarrow> error + string" where
  "get_workflow_title env intent entities =
     (if intent = PStr ''HR_Onboarding'' then
        bind_e (py_get entities ''employee_name'' (PStr ''New Employee''))
          (\<lambda>name. Inr (''Employee Onboarding - '' @ fmt env name))
      else if intent = PStr ''IT_Ticket'' then
        bind_e (py_get entities ''issue_type'' (PStr ''Technical Issue''))
          (\<lambda>issue. Inr (''IT Support Ticket - '' @ fmt env issue))
      else if intent = PStr ''Finance_Expense'' then
        bind_e (py_get entities ''description'' (PStr ''Business Expense''))
          (\<lambda>description. Inr (''Expense Report - '' @ fmt env description))
      else if intent = PStr ''Meeting_Schedule'' then
        bind_e (py_get entities ''subject'' (PStr ''Meeting''))
          (\<lambda>subject. Inr (''Schedule Meeting - '' @ fmt env subject))
      else Inr (''Workflow - '' @ fmt env intent))"

definition get_workflow_description :: "env \<Rightarrow> pyval \<Rightarrow> pyval \<Rightarrow> error + string" where
  "get_workflow_description env intent entities =
     (if intent = PStr ''HR_Onboarding'' then
        bind_e (py_get entities ''role'' (PStr ''new role''))
          (\<lambda>role. Inr (''Setting up accounts, scheduling orientation, and preparing workspace for ''
                        @ fmt env role @ ''.''))
      else if intent = PStr ''IT_Ticket'' then
        bind_e (py_get entities ''description'' (PStr ''technical issue''))
          (\<lambda>description. Inr (''Investigating and resolving '' @ fmt env description @ ''.''))
      else if intent = PStr ''Finance_Expense'' then
        bind_e (py_get entities ''amount'' (PStr ''business expense''))
          (\<lambda>amount. Inr (''Processing expense report for '' @ fmt env amount @ ''.''))
      else if intent = PStr ''Meeting_Schedule'' then
        Inr ''Scheduling meeting and sending calendar invites.''
      else Inr ''Processing workflow request.'')"

text \<open>The dictionary literal \<^verbatim>\<open>{'name': n, 'status': 'pending'}\<close>.\<close>

definition pending_step :: "string \<Rightarrow> pyval" where
  "pending_step n = PDict [(''name'', PStr n), (''status'', PStr ''pending'')]"

definition step_templates :: "(string \<times> pyval) list" where
  "step_templates =
     [(''HR_Onboarding'', PList [pending_step ''Create employee record'',
                                 pending_step ''Setup IT accounts'',
                                 pending_step ''Schedule orientation'',
                                 pending_step ''Prepare workspace'',
                                 pending_step ''Send welcome email'']),
      (''IT_Ticket'', PList [pending_step ''Ticket creation'',
                             pending_step ''Issue assessment'',
                             pending_step ''Assign technician'',
                             pending_step ''Resolve issue'']),
      (''Finance_Expense'', PList [pending_step ''Expense validation'',
                                   pending_step ''Manager approval'',
                                   pending_step ''Finance review'',
                                   pending_step ''Payment processing'']),
      (''Meeting_Schedule'', PList [pending_step ''Check availability'',
                                    pending_step ''Book meeting room'',
                                    pending_step ''Send invitations'',
                                    pending_step ''Set up equipment''])]"

definition default_steps :: pyval where
  "default_steps = PList [pending_step ''Process request'', pending_step ''Complete workflow'']"

text \<open>
  \<^verbatim>\<open>step_templates.get(intent, default)\<close>: the keys are strings, so only a string can
  hit one; a list or a dictionary is unhashable and raises \<^verbatim>\<open>TypeError\<close>.
\<close>

definition get_workflow_steps :: "pyval \<Rightarrow> error + pyval" where
  "get_workflow_steps intent =
     (case intent of
        PStr s \<Rightarrow> Inr (case map_of step_templates s of None \<Rightarrow> default_steps | Some steps \<Rightarrow> steps)
      | PList _ \<Rightarrow> Inl TypeError
      | PDict _ \<Rightarrow> Inl TypeError
      | _ \<Rightarrow> Inr default_steps)"

section \<open>WorkflowMaterializer\<close>

text \<open>
  The dictionary literal \<^verbatim>\<open>workflow_item\<close>, its entries evaluated in the order
  written; a lookup that the literal repeats is made once here. The title comes back
  beside the item, for the two messages that quote \<^verbatim>\<open>workflow_item["title"]\<close>.
\<close>

definition build_workflow_item :: "env \<Rightarrow> pyval \<Rightarrow> pyval \<Rightarrow> pyval \<Rightarrow> error + (string \<times> pyval)" where
  "build_workflow_item env intent_result original_text is_voice =
     bind_e (getitem intent_result ''intent'') (\<lambda>intent.
     bind_e (getitem intent_result ''entities'') (\<lambda>entities.
     bind_e (get_workflow_title env intent entities) (\<lambda>title.
     bind_e (get_workflow_description env intent entities) (\<lambda>description.
     bind_e (getitem intent_result ''domain'') (\<lambda>domain.
     bind_e (get_workflow_steps intent) (\<lambda>steps.
       Inr (title,
            PDict [(''id'', PStr (workflow_uuid env)),
                   (''title'', PStr title),
                   (''description'', PStr description),
                   (''domain'', domain),
                   (''intent'', intent),
                   (''entities'', entities),
                   (''status'', PStr ''in_progress''),
                   (''userId'', PStr ''default-user''),
                   (''progress'', PInt 0),
                   (''steps'', steps),
                   (''originalText'', original_text),
                   (''isVoice'', is_voice),
                   (''createdAt'', PStr (created_at env)),
                   (''updatedAt'', PStr (updated_at env))])))))))"

definition build_history_item :: "env \<Rightarrow> string \<Rightarrow> pyval" where
  "build_history_item env title =
     PDict [(''id'', PStr (history_uuid env)),
            (''workflowId'', PStr (workflow_uuid env)),
            (''action'', PStr ''workflow_started''),
            (''status'', PStr ''info''),
            (''message'', PStr (''Workflow initiated: '' @ title)),
            (''timestamp'', PStr (history_timestamp env))]"

text \<open>
  \<^verbatim>\<open>execute_workflow\<close>: the result or the exception re-raised, and the store as the
  call leaves it (an exception after the first put leaves that put in place).
\<close>

definition execute_workflow :: "env \<Rightarrow> store \<Rightarrow> pyval \<Rightarrow> pyval \<Rightarrow> pyval \<Rightarrow> (error + pyval) \<times> store" where
  "execute_workflow env st intent_result original_text is_voice =
     (case build_workflow_item env intent_result original_text is_voice of
        Inl e \<Rightarrow> (Inl e, st)
      | Inr (title, workflow_item) \<Rightarrow>
          (case put_workflow_error env of
             Some e \<Rightarrow> (Inl e, st)
           | None \<Rightarrow>
               (let st1 = st\<lparr>workflows_table := workflows_table st @ [workflow_item]\<rparr>
                in case put_history_error env of
                     Some e \<Rightarrow> (Inl e, st1)
                   | None \<Rightarrow>
                       (Inr (PDict [(''workflowId'', PStr (workflow_uuid env)),
                                    (''message'', PStr (''Workflow '' @ title
                                        @ '' has been initiated and is now in progress.''))]),
                        st1\<lparr>workflow_history_table :=
                              workflow_history_table st1 @ [build_history_item env title]\<rparr>))))"

section \<open>WorkflowOrchestrator\<close>

text \<open>
  The handler's answer: the status code and the dictionary it serialises into the body
  (the constant CORS headers are left out).
\<close>

record response =
  statusCode :: int
  responseBody :: pyval

definition internal_error :: "env \<Rightarrow> error \<Rightarrow> response" where
  "internal_error env e =
     \<lparr>statusCode = 500,
      responseBody = PDict [(''success'', PBool False),
                    (''error'', PStr (''Internal server error: '' @ str_error env e))]\<rparr>"

text \<open>
  The request body: the event itself when it has no \<^verbatim>\<open>body\<close> key, the parsed string
  when \<^verbatim>\<open>event['body']\<close> is a string, and \<^verbatim>\<open>event['body']\<close> otherwise. The event
  of an invocation is a JSON object.
\<close>

definition parse_body :: "env \<Rightarrow> (string \<times> pyval) list \<Rightarrow> error + pyval" where
  "parse_body env event =
     (case map_of event ''body'' of
        None \<Rightarrow> Inr (PDict event)
      | Some (PStr s) \<Rightarrow>
          (case json_loads env s of None \<Rightarrow> Inl JSONDecodeError | Some v \<Rightarrow> Inr v)
      | Some v \<Rightarrow> Inr v)"

definition handler :: "env \<Rightarrow> store \<Rightarrow> (string \<times> pyval) list \<Rightarrow> response \<times> store" where
  "handler env st event =
     (case parse_body env event of
        Inl e \<Rightarrow> (internal_error env e, st)
      | Inr body \<Rightarrow>
     (case py_get body ''text'' (PStr []) of
        Inl e \<Rightarrow> (internal_error env e, st)
      | Inr text \<Rightarrow>
     (case py_get body ''isVoice'' (PBool False) of
        Inl e \<Rightarrow> (internal_error env e, st)
      | Inr is_voice \<Rightarrow>
          if \<not> truthy text then
            (\<lparr>statusCode = 400,
              responseBody = PDict [(''success'', PBool False),
                            (''error'', PStr ''Text input is required'')]\<rparr>, st)
          else
     (case detect_intent_with_bedrock env text of
        Inl e \<Rightarrow> (internal_error env e, st)
      | Inr intent_result \<Rightarrow>
     (case execute_workflow env st intent_result text is_voice of
        (Inl e, st') \<Rightarrow> (internal_error env e, st')
      | (Inr workflow_result, st') \<Rightarrow>
          (\<lparr>statusCode = 200,
            responseBody = PDict [(''success'', PBool True),
                          (''intent'', intent_result),
                          (''message'', workflow_result),
                          (''workflowId'',
                             (case workflow_result of
                                PDict d \<Rightarrow> (case map_of d ''workflowId'' of None \<Rightarrow> PNone | Some w \<Rightarrow> w)
                              | _ \<Rightarrow> PNone))]\<rparr>, st'))))))"

section \<open>The specification's vocabulary\<close>

text \<open>
  The conditions under which the three heuristics of the extractor produce an entry,
  written out once so that the keys of a result can be stated.
\<close>

definition heuristic_matches :: "string \<Rightarrow> string \<Rightarrow> bool" where
  "heuristic_matches text k =
     ((k = ''employee_name'' \<and> findall_first Eps name_pattern text \<noteq> None) \<or>
      (k = ''amount'' \<and> findall_first amount_prefix amount_pattern text \<noteq> None) \<or>
      (k = ''role'' \<and> find_role roles (str_lower text) \<noteq> None))"

text \<open>
  The keyword sets in the priority order the specification lists them, and the intents
  whose set has a word inside the lowered text, in that order.
\<close>

definition spec_keyword_sets :: "(string \<times> string list) list" where
  "spec_keyword_sets =
     [(''HR_Onboarding'', [''onboard'', ''hire'', ''new employee'', ''join'']),
      (''IT_Ticket'', [''ticket'', ''issue'', ''problem'', ''bug'', ''error'']),
      (''Finance_Expense'', [''expense'', ''reimburse'', ''receipt'', ''payment'']),
      (''Meeting_Schedule'', [''meeting'', ''schedule'', ''calendar'', ''appointment''])]"

definition spec_matching_intents :: "string \<Rightarrow> string list" where
  "spec_matching_intents text =
     map fst (filter (\<lambda>p. any_in (snd p) (str_lower text)) spec_keyword_sets)"

text \<open>
  The four intents with a template of their own.
\<close>

definition bespoke_intents :: "string list" where
  "bespoke_intents = [''HR_Onboarding'', ''IT_Ticket'', ''Finance_Expense'', ''Meeting_Schedule'']"

section \<open>Concrete inputs\<close>

text \<open>
  An empty store, a world in which the model call fails and both puts succeed (its
  \<open>str_error\<close> renders a \<^verbatim>\<open>KeyError\<close> as Python does, the key in quotes), a
  classification result with an intent outside the four templates, and a world in which
  the model answers with JSON text that parses to an object without \<^verbatim>\<open>entities\<close>.
\<close>

definition empty_store :: store where
  "empty_store = \<lparr>workflows_table = [], workflow_history_table = []\<rparr>"

definition demo_env :: env where
  "demo_env =
     \<lparr>json_loads = (\<lambda>s. None),
      model_output = None,
      str_value = (\<lambda>v. ''<value>''),
      str_error = (\<lambda>e. case e of KeyError k \<Rightarrow> [CHR 0x27] @ k @ [CHR 0x27]
                                   | _ \<Rightarrow> ''<exception>''),
      workflow_uuid = ''3f0c8a52-0001'',
      history_uuid = ''3f0c8a52-0002'',
      created_at = ''2024-05-01T10:00:00.000001'',
      updated_at = ''2024-05-01T10:00:00.000002'',
      history_timestamp = ''2024-05-01T10:00:00.000003'',
      put_workflow_error = None,
      put_history_error = None\<rparr>"

definition demo_result :: "(string \<times> pyval) list" where
  "demo_result =
     [(''intent'', PStr ''HR_Offboarding''),
      (''entities'', PDict [(''employee_name'', PStr ''Jane Doe'')]),
      (''confidence'', PFloat 0.95),
      (''domain'', PStr ''HR'')]"

definition partial_reply :: string where
  \<open>partial_reply = ''{"intent": "IT_Ticket", "confidence": 0.9, "domain": "IT"}''\<close>

definition partial_fields :: "(string \<times> pyval) list" where
  "partial_fields =
     [(''intent'', PStr ''IT_Ticket''), (''confidence'', PFloat 0.9), (''domain'', PStr ''IT'')]"

definition parsing_env :: env where
  "parsing_env =
     demo_env\<lparr>model_output := Some partial_reply,
              json_loads := (\<lambda>s. if s = partial_reply then Some (PDict partial_fields) else None)\<rparr>"

section \<open>Substrings\<close>

lemma starts_with_iff: "starts_with s w \<longleftrightarrow> (\<exists>q. s = w @ q)"
  by (induction s w rule: starts_with.induct) auto

lemma contains_iff: "contains s w \<longleftrightarrow> (\<exists>p q. s = p @ w @ q)"
proof (induction s)
  case Nil
  show ?case by auto
next
  case (Cons c cs)
  show ?case
  proof
    assume "contains (c # cs) w"
    then consider "starts_with (c # cs) w" | "contains cs w" by auto
    then show "\<exists>p q. c # cs = p @ w @ q"
    proof cases
      case 1
      then obtain q where "c # cs = w @ q" using starts_with_iff by blast
      then have "c # cs = [] @ w @ q" by simp
      then show ?thesis by blast
    next
      case 2
      then obtain p q where "cs = p @ w @ q" using Cons.IH by blast
      then have "c # cs = (c # p) @ w @ q" by simp
      then show ?thesis by blast
    qed
  next
    assume "\<exists>p q. c # cs = p @ w @ q"
    then obtain p q where pq: "c # cs = p @ w @ q" by blast
    show "contains (c # cs) w"
    proof (cases p)
      case Nil
      with pq have "starts_with (c # cs) w" using starts_with_iff by auto
      then show ?thesis by simp
    next
      case (Cons a p')
      with pq have "cs = p' @ w @ q" by simp
      then have "contains cs w" using Cons.IH by blast
      then show ?thesis by simp
    qed
  qed
qed

lemma contains_trans: "contains s v \<Longrightarrow> contains v w \<Longrightarrow> contains s w"
  unfolding contains_iff
  by (metis append.assoc)

lemma contains_lower: "contains s w \<Longrightarrow> contains (str_lower s) (str_lower w)"
  unfolding contains_iff str_lower_def by (metis map_append)

lemma any_in_iff: "any_in ws s \<longleftrightarrow> (\<exists>w \<in> set ws. contains s w)"
  by (simp add: any_in_def list_ex_iff)

section \<open>Facts about the extractor and the fallback classifier\<close>

lemma keys_extract_one:
  "fst ` set (extract_one text k acc) =
     fst ` set acc \<union> (if heuristic_matches text k then {k} else {})"
  by (auto simp: extract_one_def heuristic_matches_def dom_update split: option.splits)

lemma keys_extract_loop:
  "fst ` set (extract_loop text ws acc) =
     fst ` set acc \<union> {k \<in> set ws. heuristic_matches text k}"
proof (induction ws arbitrary: acc)
  case Nil
  show ?case by simp
next
  case (Cons w ws)
  show ?case
    unfolding extract_loop.simps Cons.IH keys_extract_one by auto
qed

lemma extract_it: "extract_entities text [''issue_type'', ''priority'', ''description''] = []"
  by (simp add: extract_entities_def extract_one_def)

lemma extract_meeting: "extract_entities text [''date'', ''time'', ''attendees'', ''subject''] = []"
  by (simp add: extract_entities_def extract_one_def)

lemma fallback_intent_cases:
  "getitem (fallback_intent_detection text) ''intent'' =
     Inr (PStr (if any_in [''onboard'', ''hire'', ''new employee'', ''join''] (str_lower text) then ''HR_Onboarding''
      else if any_in [''ticket'', ''issue'', ''problem'', ''bug'', ''error''] (str_lower text) then ''IT_Ticket''
      else if any_in [''expense'', ''reimburse'', ''receipt'', ''payment''] (str_lower text) then ''Finance_Expense''
      else if any_in [''meeting'', ''schedule'', ''calendar'', ''appointment''] (str_lower text) then ''Meeting_Schedule''
      else ''General_Query''))"
  unfolding fallback_intent_detection_def Let_def
  apply (simp only: if_distrib [of "\<lambda>v. getitem v ''intent''"] if_distrib [of PStr] if_distrib [of Inr])
  apply (simp only: getitem.simps map_of.simps fst_conv snd_conv)
  apply simp
  done

lemma fallback_entities_cases:
  "getitem (fallback_intent_detection text) ''entities'' =
     Inr (if any_in [''onboard'', ''hire'', ''new employee'', ''join''] (str_lower text)
            then str_dict (extract_entities text [''employee_name'', ''role'', ''start_date''])
      else if any_in [''ticket'', ''issue'', ''problem'', ''bug'', ''error''] (str_lower text)
            then str_dict (extract_entities text [''issue_type'', ''priority'', ''description''])
      else if any_in [''expense'', ''reimburse'', ''receipt'', ''payment''] (str_lower text)
            then str_dict (extract_entities text [''amount'', ''category'', ''description''])
      else if any_in [''meeting'', ''schedule'', ''calendar'', ''appointment''] (str_lower text)
            then str_dict (extract_entities text [''date'', ''time'', ''attendees'', ''subject''])
      else PDict [])"
  unfolding fallback_intent_detection_def Let_def
  apply (simp only: if_distrib [of "\<lambda>v. getitem v ''entities''"] if_distrib [of Inr])
  apply (simp only: getitem.simps map_of.simps fst_conv snd_conv)
  apply simp
  done

lemma fallback_domain_cases:
  "getitem (fallback_intent_detection text) ''domain'' =
     Inr (PStr (if any_in [''onboard'', ''hire'', ''new employee'', ''join''] (str_lower text) then ''HR''
      else if any_in [''ticket'', ''issue'', ''problem'', ''bug'', ''error''] (str_lower text) then ''IT''
      else if any_in [''expense'', ''reimburse'', ''receipt'', ''payment''] (str_lower text) then ''Finance''
      else if any_in [''meeting'', ''schedule'', ''calendar'', ''appointment''] (str_lower text) then ''General''
      else ''General''))"
  unfolding fallback_intent_detection_def Let_def
  apply (simp only: if_distrib [of "\<lambda>v. getitem v ''domain''"] if_distrib [of PStr] if_distrib [of Inr])
  apply (simp only: getitem.simps map_of.simps fst_conv snd_conv)
  apply simp
  done

lemma hr_branch:
  "any_in [''onboard'', ''hire'', ''new employee'', ''join''] (str_lower text) \<Longrightarrow>
   getitem (fallback_intent_detection text) ''intent'' = Inr (PStr ''HR_Onboarding'')"
  by (simp add: fallback_intent_cases)

lemma it_branch:
  "\<not> any_in [''onboard'', ''hire'', ''new employee'', ''join''] (str_lower text) \<Longrightarrow>
   any_in [''ticket'', ''issue'', ''problem'', ''bug'', ''error''] (str_lower text) \<Longrightarrow>
   getitem (fallback_intent_detection text) ''intent'' = Inr (PStr ''IT_Ticket'')"
  by (simp add: fallback_intent_cases)

lemma lowercase_word_in_text:
  assumes "contains text w" and "str_lower w = w" and "contains w kw"
  shows "contains (str_lower text) kw"
proof -
  have "contains (str_lower text) w" using contains_lower [OF assms(1)] assms(2) by simp
  then show ?thesis using assms(3) contains_trans by blast
qed

section \<open>Facts about the materializer and the handler\<close>

lemma build_item_fields:
  assumes "build_workflow_item env intent_result original_text is_voice = Inr (t, w)"
  shows "getitem w ''id'' = Inr (PStr (workflow_uuid env))"
    and "getitem w ''title'' = Inr (PStr t)"
    and "getitem w ''status'' = Inr (PStr ''in_progress'')"
    and "getitem w ''progress'' = Inr (PInt 0)"
  using assms
  by (auto simp: build_workflow_item_def bind_e_def split: sum.splits)

lemma history_item_fields:
  "getitem (build_history_item env t) ''workflowId'' = Inr (PStr (workflow_uuid env))"
  "getitem (build_history_item env t) ''action'' = Inr (PStr ''workflow_started'')"
  "getitem (build_history_item env t) ''status'' = Inr (PStr ''info'')"
  by (simp_all add: build_history_item_def)

lemma execute_workflow_success:
  assumes "execute_workflow env st intent_result original_text is_voice = (Inr res, st')"
  shows "\<exists>t w. build_workflow_item env intent_result original_text is_voice = Inr (t, w)
           \<and> put_workflow_error env = None \<and> put_history_error env = None
           \<and> workflows_table st' = workflows_table st @ [w]
           \<and> workflow_history_table st' = workflow_history_table st @ [build_history_item env t]"
  using assms
  by (auto simp: execute_workflow_def Let_def split: sum.splits option.splits prod.splits)

lemma build_same_fields:
  assumes "getitem r1 ''intent'' = getitem r2 ''intent''"
    and "getitem r1 ''entities'' = getitem r2 ''entities''"
    and "getitem r1 ''domain'' = getitem r2 ''domain''"
  shows "build_workflow_item env r1 t v = build_workflow_item env r2 t v"
  unfolding build_workflow_item_def assms ..

lemma generic_title:
  assumes "s \<notin> set bespoke_intents"
  shows "get_workflow_title env (PStr s) entities = Inr (''Workflow - '' @ s)"
  using assms by (simp add: get_workflow_title_def bespoke_intents_def fmt_def)

lemma generic_description:
  assumes "s \<notin> set bespoke_intents"
  shows "get_workflow_description env (PStr s) entities = Inr ''Processing workflow request.''"
  using assms by (simp add: get_workflow_description_def bespoke_intents_def)

lemma generic_steps:
  assumes "s \<notin> set bespoke_intents"
  shows "get_workflow_steps (PStr s) =
           Inr (PList [PDict [(''name'', PStr ''Process request''), (''status'', PStr ''pending'')],
                       PDict [(''name'', PStr ''Complete workflow''), (''status'', PStr ''pending'')]])"
  using assms
  by (simp add: get_workflow_steps_def bespoke_intents_def step_templates_def default_steps_def
        pending_step_def)

lemma build_item_generic:
  assumes b: "build_workflow_item env r original_text is_voice = Inr (t, w)"
    and i: "getitem r ''intent'' = Inr (PStr s)"
    and s: "s \<notin> set bespoke_intents"
  shows "getitem w ''title'' = Inr (PStr (''Workflow - '' @ s))"
    and "getitem w ''description'' = Inr (PStr ''Processing workflow request.'')"
    and "getitem w ''steps'' =
           Inr (PList [PDict [(''name'', PStr ''Process request''), (''status'', PStr ''pending'')],
                       PDict [(''name'', PStr ''Complete workflow''), (''status'', PStr ''pending'')]])"
  using b
  unfolding build_workflow_item_def i bind_e_def
  by (auto simp: generic_title [OF s] generic_description [OF s] generic_steps [OF s]
        split: sum.splits)

lemma build_missing_key:
  assumes "map_of d ''intent'' = None \<or> map_of d ''entities'' = None \<or> map_of d ''domain'' = None"
  shows "\<exists>e. build_workflow_item env (PDict d) original_text is_voice = Inl e"
  using assms
  by (auto simp: build_workflow_item_def bind_e_def split: sum.splits option.splits)

lemma execute_workflow_build_error:
  assumes "build_workflow_item env r original_text is_voice = Inl e"
  shows "execute_workflow env st r original_text is_voice = (Inl e, st)"
  by (simp add: execute_workflow_def assms)

lemma build_missing_intent:
  assumes "map_of d ''intent'' = None"
  shows "build_workflow_item env (PDict d) original_text is_voice = Inl (KeyError ''intent'')"
  by (simp add: build_workflow_item_def bind_e_def assms)

lemma build_missing_entities:
  assumes "map_of d ''intent'' = Some i" and "map_of d ''entities'' = None"
  shows "build_workflow_item env (PDict d) original_text is_voice = Inl (KeyError ''entities'')"
  by (simp add: build_workflow_item_def bind_e_def assms)

lemma py_get_not_dict:
  assumes "\<forall>e. v \<noteq> PDict e"
  shows "py_get v k dflt = Inl AttributeError"
  using assms by (cases v) simp_all

lemma title_not_dict:
  assumes s: "s \<in> set bespoke_intents" and v: "\<forall>e. v \<noteq> PDict e"
  shows "get_workflow_title env (PStr s) v = Inl AttributeError"
proof -
  have "s = ''HR_Onboarding'' \<or> s = ''IT_Ticket'' \<or> s = ''Finance_Expense'' \<or> s = ''Meeting_Schedule''"
    using s by (simp add: bespoke_intents_def)
  then show ?thesis
  proof (elim disjE)
    assume "s = ''HR_Onboarding''"
    then show ?thesis
      by (simp add: get_workflow_title_def bind_e_def py_get_not_dict [OF v] del: py_get.simps)
  next
    assume "s = ''IT_Ticket''"
    then show ?thesis
      by (simp add: get_workflow_title_def bind_e_def py_get_not_dict [OF v] del: py_get.simps)
  next
    assume "s = ''Finance_Expense''"
    then show ?thesis
      by (simp add: get_workflow_title_def bind_e_def py_get_not_dict [OF v] del: py_get.simps)
  next
    assume "s = ''Meeting_Schedule''"
    then show ?thesis
      by (simp add: get_workflow_title_def bind_e_def py_get_not_dict [OF v] del: py_get.simps)
  qed
qed

lemma build_entities_not_dict:
  assumes "map_of d ''intent'' = Some (PStr s)" and "s \<in> set bespoke_intents"
    and "map_of d ''entities'' = Some v" and "\<forall>e. v \<noteq> PDict e"
  shows "build_workflow_item env (PDict d) original_text is_voice = Inl AttributeError"
  by (simp add: build_workflow_item_def bind_e_def assms(1) assms(3)
        title_not_dict [OF assms(2) assms(4)])

lemma title_on_dict: "\<exists>t. get_workflow_title env intent (PDict e) = Inr t"
  by (auto simp: get_workflow_title_def bind_e_def split: option.splits)

lemma description_on_dict: "\<exists>t. get_workflow_description env intent (PDict e) = Inr t"
  by (auto simp: get_workflow_description_def bind_e_def split: option.splits)

lemma steps_on_str: "\<exists>t. get_workflow_steps (PStr i) = Inr t"
  by (simp add: get_workflow_steps_def)

lemma build_missing_domain:
  assumes i: "map_of d ''intent'' = Some i" and e: "map_of d ''entities'' = Some (PDict e)"
    and m: "map_of d ''domain'' = None"
  shows "build_workflow_item env (PDict d) original_text is_voice = Inl (KeyError ''domain'')"
proof -
  obtain t where t: "get_workflow_title env i (PDict e) = Inr t"
    using title_on_dict by blast
  obtain ds where ds: "get_workflow_description env i (PDict e) = Inr ds"
    using description_on_dict by blast
  show ?thesis
    by (simp add: build_workflow_item_def bind_e_def i e m t ds)
qed

lemma title_untemplated:
  assumes "i \<notin> PStr ` set bespoke_intents"
  shows "get_workflow_title env i x = Inr (''Workflow - '' @ fmt env i)"
  using assms by (simp add: get_workflow_title_def bespoke_intents_def)

lemma description_untemplated:
  assumes "i \<notin> PStr ` set bespoke_intents"
  shows "get_workflow_description env i x = Inr ''Processing workflow request.''"
  using assms by (simp add: get_workflow_description_def bespoke_intents_def)

lemma build_missing_domain_untemplated:
  assumes i: "map_of d ''intent'' = Some i" and n: "i \<notin> PStr ` set bespoke_intents"
    and e: "map_of d ''entities'' = Some x" and m: "map_of d ''domain'' = None"
  shows "build_workflow_item env (PDict d) original_text is_voice = Inl (KeyError ''domain'')"
  by (simp add: build_workflow_item_def bind_e_def i e m title_untemplated [OF n]
        description_untemplated [OF n])

lemma build_on_shape:
  assumes i: "getitem r ''intent'' = Inr (PStr i)"
    and e: "getitem r ''entities'' = Inr (PDict e)"
    and d: "getitem r ''domain'' = Inr d"
  shows "\<exists>t w. build_workflow_item env r original_text is_voice = Inr (t, w)"
proof -
  obtain t where t: "get_workflow_title env (PStr i) (PDict e) = Inr t"
    using title_on_dict by blast
  obtain ds where ds: "get_workflow_description env (PStr i) (PDict e) = Inr ds"
    using description_on_dict by blast
  obtain ss where ss: "get_workflow_steps (PStr i) = Inr ss"
    using steps_on_str by blast
  show ?thesis
    by (simp add: build_workflow_item_def bind_e_def i e d t ds ss)
qed

lemma fallback_build_ok:
  "\<exists>t w. build_workflow_item env (fallback_intent_detection text) original_text is_voice = Inr (t, w)"
proof -
  have "\<exists>e. getitem (fallback_intent_detection text) ''entities'' = Inr (PDict e)"
    unfolding fallback_entities_cases str_dict_def by simp
  then obtain e where e: "getitem (fallback_intent_detection text) ''entities'' = Inr (PDict e)" ..
  show ?thesis
    by (rule build_on_shape [OF fallback_intent_cases e fallback_domain_cases])
qed

lemma execute_workflow_ok:
  assumes b: "build_workflow_item env r original_text is_voice = Inr (t, w)"
    and pw: "put_workflow_error env = None" and ph: "put_history_error env = None"
  shows "execute_workflow env st r original_text is_voice =
           (Inr (PDict [(''workflowId'', PStr (workflow_uuid env)),
                        (''message'', PStr (''Workflow '' @ t
                            @ '' has been initiated and is now in progress.''))]),
            st\<lparr>workflows_table := workflows_table st @ [w],
               workflow_history_table := workflow_history_table st @ [build_history_item env t]\<rparr>)"
  by (simp add: execute_workflow_def b pw ph Let_def)

lemma py_get_is_dict:
  assumes "py_get b k dflt = Inr v"
  shows "\<exists>d. b = PDict d"
  using assms by (cases b) simp_all

lemma py_get_dict_total: "\<exists>v. py_get (PDict d) k dflt = Inr v"
  by (cases "map_of d k") simp_all

lemma inr_result: "\<not> isl (fst p) \<Longrightarrow> p = (Inr (projr (fst p)), snd p)"
  by (cases p, cases "fst p") simp_all

section \<open>EntityExtractor: the round trip\<close>

text \<open>
  Claim C1, as the code has it. On the text
  \<^verbatim>\<open>Pay John Smith $250.00 for travel\<close> with the requested types \<^verbatim>\<open>employee_name\<close> and \<^verbatim>\<open>amount\<close>, \<^verbatim>\<open>extract_entities\<close>
  returns exactly \<^verbatim>\<open>{employee_name: "Pay John", amount: "$250.00"}\<close>: the leftmost match
  of \<^verbatim>\<open>[A-Z][a-z]+ [A-Z][a-z]+\<close> in that text starts at \<^verbatim>\<open>Pay\<close>, and the amount is
  the first number with a dollar sign put in front.
\<close>

theorem extract_round_trip:
  "extract_entities ''Pay John Smith $250.00 for travel'' [''employee_name'', ''amount'']
     = [(''employee_name'', ''Pay John''), (''amount'', ''$250.00'')]"
  by code_simp

text \<open>
  The result is not the dictionary with \<^verbatim>\<open>employee_name: "John Smith"\<close>: the entry
  under \<^verbatim>\<open>employee_name\<close> is \<^verbatim>\<open>Pay John\<close>.
\<close>

theorem extract_round_trip_counterexample:
  "map_of (extract_entities ''Pay John Smith $250.00 for travel'' [''employee_name'', ''amount''])
       ''employee_name'' = Some ''Pay John''
   \<and> extract_entities ''Pay John Smith $250.00 for travel'' [''employee_name'', ''amount'']
       \<noteq> [(''employee_name'', ''John Smith''), (''amount'', ''$250.00'')]"
  by code_simp

section \<open>IntentClassifier: a parsed object is not validated\<close>

text \<open>
  Claim C2, as the code has it. When the model call succeeds and its output parses, the
  parsed value is returned as it is. The materializer does not default a missing top-level
  field: on an object that lacks \<^verbatim>\<open>intent\<close>, \<^verbatim>\<open>entities\<close> or \<^verbatim>\<open>domain\<close>,
  \<^verbatim>\<open>execute_workflow\<close> raises before any write. The exception is
  \<^verbatim>\<open>KeyError('intent')\<close> when \<^verbatim>\<open>intent\<close> is missing, \<^verbatim>\<open>KeyError('entities')\<close>
  when \<^verbatim>\<open>intent\<close> is there and \<^verbatim>\<open>entities\<close> is missing, and
  \<^verbatim>\<open>KeyError('domain')\<close> when only \<^verbatim>\<open>domain\<close> is missing and either the entities
  are a dictionary or the intent is not one of the four with a template; when the intent
  is one of those four and the entities are present but not a dictionary, it is the
  \<^verbatim>\<open>AttributeError\<close> of \<^verbatim>\<open>entities.get\<close>, whether or not \<^verbatim>\<open>domain\<close> is there. The handler, for a request whose text is not
  empty, answers such an object with the internal-error outcome and leaves the store as
  it was.
\<close>

theorem parsed_object_unvalidated:
  "(model_output env = Some g \<and> json_loads env g = Some v \<longrightarrow>
      detect_intent_with_bedrock env text = Inr v)
   \<and> (map_of d ''intent'' = None \<or> map_of d ''entities'' = None \<or> map_of d ''domain'' = None \<longrightarrow>
        (\<exists>e. execute_workflow env st (PDict d) original_text is_voice = (Inl e, st)))
   \<and> (map_of d ''intent'' = None \<longrightarrow>
        execute_workflow env st (PDict d) original_text is_voice = (Inl (KeyError ''intent''), st))
   \<and> (map_of d ''intent'' = Some i \<and> map_of d ''entities'' = None \<longrightarrow>
        execute_workflow env st (PDict d) original_text is_voice = (Inl (KeyError ''entities''), st))
   \<and> (map_of d ''intent'' = Some i \<and> map_of d ''entities'' = Some (PDict ents)
        \<and> map_of d ''domain'' = None \<longrightarrow>
        execute_workflow env st (PDict d) original_text is_voice = (Inl (KeyError ''domain''), st))
   \<and> (map_of d ''intent'' = Some i \<and> i \<notin> PStr ` set bespoke_intents
        \<and> map_of d ''entities'' = Some x \<and> map_of d ''domain'' = None \<longrightarrow>
        execute_workflow env st (PDict d) original_text is_voice = (Inl (KeyError ''domain''), st))
   \<and> (map_of d ''intent'' = Some (PStr s) \<and> s \<in> set bespoke_intents
        \<and> map_of d ''entities'' = Some x \<and> (\<forall>kv. x \<noteq> PDict kv) \<longrightarrow>
        execute_workflow env st (PDict d) original_text is_voice = (Inl AttributeError, st))
   \<and> (model_output env = Some g \<and> json_loads env g = Some (PDict d)
        \<and> (map_of d ''intent'' = None \<or> map_of d ''entities'' = None \<or> map_of d ''domain'' = None)
        \<and> parse_body env event = Inr b \<and> py_get b ''text'' (PStr []) = Inr text0 \<and> truthy text0 \<longrightarrow>
        (\<exists>e. handler env st event = (internal_error env e, st)))"
proof (intro conjI impI)
  assume "model_output env = Some g \<and> json_loads env g = Some v"
  then show "detect_intent_with_bedrock env text = Inr v"
    by (simp add: detect_intent_with_bedrock_def)
next
  assume a: "map_of d ''intent'' = None \<or> map_of d ''entities'' = None \<or> map_of d ''domain'' = None"
  obtain e where "build_workflow_item env (PDict d) original_text is_voice = Inl e"
    using build_missing_key [OF a] ..
  then have "execute_workflow env st (PDict d) original_text is_voice = (Inl e, st)"
    by (rule execute_workflow_build_error)
  then show "\<exists>e. execute_workflow env st (PDict d) original_text is_voice = (Inl e, st)"
    by (intro exI)
next
  assume "map_of d ''intent'' = None"
  then show "execute_workflow env st (PDict d) original_text is_voice
               = (Inl (KeyError ''intent''), st)"
    by (rule execute_workflow_build_error [OF build_missing_intent])
next
  assume a: "map_of d ''intent'' = Some i \<and> map_of d ''entities'' = None"
  show "execute_workflow env st (PDict d) original_text is_voice
          = (Inl (KeyError ''entities''), st)"
    by (rule execute_workflow_build_error
          [OF build_missing_entities [OF conjunct1 [OF a] conjunct2 [OF a]]])
next
  assume a: "map_of d ''intent'' = Some i \<and> map_of d ''entities'' = Some (PDict ents)
        \<and> map_of d ''domain'' = None"
  show "execute_workflow env st (PDict d) original_text is_voice
          = (Inl (KeyError ''domain''), st)"
    by (rule execute_workflow_build_error
          [OF build_missing_domain [OF conjunct1 [OF a] conjunct1 [OF conjunct2 [OF a]]
                conjunct2 [OF conjunct2 [OF a]]]])
next
  assume a: "map_of d ''intent'' = Some i \<and> i \<notin> PStr ` set bespoke_intents
        \<and> map_of d ''entities'' = Some x \<and> map_of d ''domain'' = None"
  show "execute_workflow env st (PDict d) original_text is_voice
          = (Inl (KeyError ''domain''), st)"
    by (rule execute_workflow_build_error
          [OF build_missing_domain_untemplated [OF conjunct1 [OF a] conjunct1 [OF conjunct2 [OF a]]
                conjunct1 [OF conjunct2 [OF conjunct2 [OF a]]]
                conjunct2 [OF conjunct2 [OF conjunct2 [OF a]]]]])
next
  assume a: "map_of d ''intent'' = Some (PStr s) \<and> s \<in> set bespoke_intents
        \<and> map_of d ''entities'' = Some x \<and> (\<forall>kv. x \<noteq> PDict kv)"
  show "execute_workflow env st (PDict d) original_text is_voice = (Inl AttributeError, st)"
    by (rule execute_workflow_build_error
          [OF build_entities_not_dict [OF conjunct1 [OF a] conjunct1 [OF conjunct2 [OF a]]
                conjunct1 [OF conjunct2 [OF conjunct2 [OF a]]]
                conjunct2 [OF conjunct2 [OF conjunct2 [OF a]]]]])
next
  assume a: "model_output env = Some g \<and> json_loads env g = Some (PDict d)
        \<and> (map_of d ''intent'' = None \<or> map_of d ''entities'' = None \<or> map_of d ''domain'' = None)
        \<and> parse_body env event = Inr b \<and> py_get b ''text'' (PStr []) = Inr text0 \<and> truthy text0"
  then have mo: "model_output env = Some g" and jl: "json_loads env g = Some (PDict d)"
    and miss: "map_of d ''intent'' = None \<or> map_of d ''entities'' = None \<or> map_of d ''domain'' = None"
    and p: "parse_body env event = Inr b" and gt: "py_get b ''text'' (PStr []) = Inr text0"
    and tr: "truthy text0"
    by simp_all
  obtain bd where bd: "b = PDict bd" using py_get_is_dict [OF gt] ..
  obtain iv where v: "py_get b ''isVoice'' (PBool False) = Inr iv"
    unfolding bd using py_get_dict_total ..
  have det: "detect_intent_with_bedrock env text0 = Inr (PDict d)"
    by (simp add: detect_intent_with_bedrock_def mo jl)
  obtain e where "build_workflow_item env (PDict d) text0 iv = Inl e"
    using build_missing_key [OF miss] ..
  then have ex: "execute_workflow env st (PDict d) text0 iv = (Inl e, st)"
    by (rule execute_workflow_build_error)
  have "handler env st event = (internal_error env e, st)"
    by (simp add: handler_def p gt v tr det ex del: py_get.simps)
  then show "\<exists>e. handler env st event = (internal_error env e, st)"
    by (intro exI)
qed

text \<open>
  The theorem at the object without \<^verbatim>\<open>entities\<close>, at the empty object, at an object
  without \<^verbatim>\<open>domain\<close> whose entities are a dictionary, and at two without
  \<^verbatim>\<open>domain\<close> whose entities are \<^verbatim>\<open>null\<close>, under an intent without and with
  a template.
\<close>

theorem parsed_object_unvalidated_witness:
  "detect_intent_with_bedrock parsing_env (PStr ''my laptop has a problem'') = Inr (PDict partial_fields)
   \<and> (\<exists>e. execute_workflow parsing_env empty_store (PDict partial_fields)
              (PStr ''my laptop has a problem'') (PBool False) = (Inl e, empty_store))
   \<and> execute_workflow parsing_env empty_store (PDict partial_fields)
         (PStr ''my laptop has a problem'') (PBool False) = (Inl (KeyError ''entities''), empty_store)
   \<and> execute_workflow parsing_env empty_store (PDict [])
         (PStr ''my laptop has a problem'') (PBool False) = (Inl (KeyError ''intent''), empty_store)
   \<and> execute_workflow parsing_env empty_store
         (PDict [(''intent'', PStr ''IT_Ticket''), (''entities'', PDict [])])
         (PStr ''my laptop has a problem'') (PBool False) = (Inl (KeyError ''domain''), empty_store)
   \<and> execute_workflow parsing_env empty_store
         (PDict [(''intent'', PStr ''General_Query''), (''entities'', PNone)])
         (PStr ''my laptop has a problem'') (PBool False) = (Inl (KeyError ''domain''), empty_store)
   \<and> execute_workflow parsing_env empty_store
         (PDict [(''intent'', PStr ''HR_Onboarding''), (''entities'', PNone)])
         (PStr ''my laptop has a problem'') (PBool False) = (Inl AttributeError, empty_store)
   \<and> (\<exists>e. handler parsing_env empty_store
              [(''body'', PDict [(''text'', PStr ''my laptop has a problem'')])]
            = (internal_error parsing_env e, empty_store))"
proof -
  have mo: "model_output parsing_env = Some partial_reply"
    by (simp add: parsing_env_def)
  have jl: "json_loads parsing_env partial_reply = Some (PDict partial_fields)"
    by (simp add: parsing_env_def)
  have miss: "map_of partial_fields ''intent'' = None \<or> map_of partial_fields ''entities'' = None
                \<or> map_of partial_fields ''domain'' = None"
    by (simp add: partial_fields_def)
  have p: "parse_body parsing_env [(''body'', PDict [(''text'', PStr ''my laptop has a problem'')])]
             = Inr (PDict [(''text'', PStr ''my laptop has a problem'')])"
    by (simp add: parse_body_def)
  have g: "py_get (PDict [(''text'', PStr ''my laptop has a problem'')]) ''text'' (PStr [])
             = Inr (PStr ''my laptop has a problem'')"
    by simp
  have tr: "truthy (PStr ''my laptop has a problem'')"
    by simp
  have pi: "map_of partial_fields ''intent'' = Some (PStr ''IT_Ticket'')
              \<and> map_of partial_fields ''entities'' = None"
    by (simp add: partial_fields_def)
  have ni: "map_of ([] :: (string \<times> pyval) list) ''intent'' = None"
    by simp
  have nd: "map_of [(''intent'', PStr ''IT_Ticket''), (''entities'', PDict [])] ''intent''
              = Some (PStr ''IT_Ticket'')
            \<and> map_of [(''intent'', PStr ''IT_Ticket''), (''entities'', PDict [])] ''entities''
              = Some (PDict [])
            \<and> map_of [(''intent'', PStr ''IT_Ticket''), (''entities'', PDict [])] ''domain'' = None"
    by simp
  have na: "map_of [(''intent'', PStr ''HR_Onboarding''), (''entities'', PNone)] ''intent''
              = Some (PStr ''HR_Onboarding'')
            \<and> ''HR_Onboarding'' \<in> set bespoke_intents
            \<and> map_of [(''intent'', PStr ''HR_Onboarding''), (''entities'', PNone)] ''entities''
              = Some PNone
            \<and> (\<forall>kv. PNone \<noteq> PDict kv)"
    by (simp add: bespoke_intents_def)
  note c = parsed_object_unvalidated [where env = parsing_env and g = partial_reply and v = "PDict partial_fields"
      and d = partial_fields and ?text = "PStr ''my laptop has a problem''"
      and st = empty_store and original_text = "PStr ''my laptop has a problem''"
      and is_voice = "PBool False" and i = "PStr ''IT_Ticket''"
      and event = "[(''body'', PDict [(''text'', PStr ''my laptop has a problem'')])]"
      and b = "PDict [(''text'', PStr ''my laptop has a problem'')]"
      and ?text0.0 = "PStr ''my laptop has a problem''"]
  note c0 = parsed_object_unvalidated [where env = parsing_env and d = "[]" and st = empty_store
      and original_text = "PStr ''my laptop has a problem''" and is_voice = "PBool False"]
  note c1 = parsed_object_unvalidated [where env = parsing_env
      and d = "[(''intent'', PStr ''IT_Ticket''), (''entities'', PDict [])]"
      and i = "PStr ''IT_Ticket''" and ents = "[]" and st = empty_store
      and original_text = "PStr ''my laptop has a problem''" and is_voice = "PBool False"]
  note c2 = parsed_object_unvalidated [where env = parsing_env
      and d = "[(''intent'', PStr ''HR_Onboarding''), (''entities'', PNone)]"
      and s = "''HR_Onboarding''" and x = PNone and st = empty_store
      and original_text = "PStr ''my laptop has a problem''" and is_voice = "PBool False"]
  have nu: "map_of [(''intent'', PStr ''General_Query''), (''entities'', PNone)] ''intent''
              = Some (PStr ''General_Query'')
            \<and> PStr ''General_Query'' \<notin> PStr ` set bespoke_intents
            \<and> map_of [(''intent'', PStr ''General_Query''), (''entities'', PNone)] ''entities''
              = Some PNone
            \<and> map_of [(''intent'', PStr ''General_Query''), (''entities'', PNone)] ''domain'' = None"
    by (simp add: bespoke_intents_def)
  note c3 = parsed_object_unvalidated [where env = parsing_env
      and d = "[(''intent'', PStr ''General_Query''), (''entities'', PNone)]"
      and i = "PStr ''General_Query''" and x = PNone and st = empty_store
      and original_text = "PStr ''my laptop has a problem''" and is_voice = "PBool False"]
  have a: "detect_intent_with_bedrock parsing_env (PStr ''my laptop has a problem'')
             = Inr (PDict partial_fields)"
    by (rule mp [OF conjunct1 [OF c] conjI [OF mo jl]])
  have b: "\<exists>e. execute_workflow parsing_env empty_store (PDict partial_fields)
              (PStr ''my laptop has a problem'') (PBool False) = (Inl e, empty_store)"
    by (rule mp [OF conjunct1 [OF conjunct2 [OF c]] miss])
  have ke: "execute_workflow parsing_env empty_store (PDict partial_fields)
              (PStr ''my laptop has a problem'') (PBool False)
              = (Inl (KeyError ''entities''), empty_store)"
    by (rule mp [OF conjunct1 [OF conjunct2 [OF conjunct2 [OF conjunct2 [OF c]]]] pi])
  have ki: "execute_workflow parsing_env empty_store (PDict [])
              (PStr ''my laptop has a problem'') (PBool False)
              = (Inl (KeyError ''intent''), empty_store)"
    by (rule mp [OF conjunct1 [OF conjunct2 [OF conjunct2 [OF c0]]] ni])
  have kd: "execute_workflow parsing_env empty_store
              (PDict [(''intent'', PStr ''IT_Ticket''), (''entities'', PDict [])])
              (PStr ''my laptop has a problem'') (PBool False)
              = (Inl (KeyError ''domain''), empty_store)"
    by (rule mp [OF conjunct1 [OF conjunct2 [OF conjunct2 [OF conjunct2 [OF conjunct2 [OF c1]]]]] nd])
  have ae: "execute_workflow parsing_env empty_store
              (PDict [(''intent'', PStr ''HR_Onboarding''), (''entities'', PNone)])
              (PStr ''my laptop has a problem'') (PBool False)
              = (Inl AttributeError, empty_store)"
    by (rule mp [OF conjunct1 [OF conjunct2 [OF conjunct2 [OF conjunct2 [OF conjunct2
          [OF conjunct2 [OF conjunct2 [OF c2]]]]]]] na])
  have ku: "execute_workflow parsing_env empty_store
              (PDict [(''intent'', PStr ''General_Query''), (''entities'', PNone)])
              (PStr ''my laptop has a problem'') (PBool False)
              = (Inl (KeyError ''domain''), empty_store)"
    by (rule mp [OF conjunct1 [OF conjunct2 [OF conjunct2 [OF conjunct2 [OF conjunct2
          [OF conjunct2 [OF c3]]]]]] nu])
  have h: "\<exists>e. handler parsing_env empty_store
              [(''body'', PDict [(''text'', PStr ''my laptop has a problem'')])]
            = (internal_error parsing_env e, empty_store)"
    by (rule mp [OF conjunct2 [OF conjunct2 [OF conjunct2 [OF conjunct2 [OF conjunct2
          [OF conjunct2 [OF conjunct2 [OF c]]]]]]]
          conjI [OF mo conjI [OF jl conjI [OF miss conjI [OF p conjI [OF g tr]]]]]])
  show ?thesis
    by (rule conjI [OF a conjI [OF b conjI [OF ke conjI [OF ki conjI [OF kd
          conjI [OF ku conjI [OF ae h]]]]]]])
qed

text \<open>
  An object without \<^verbatim>\<open>entities\<close> is not tolerated: the classifier hands it on,
  \<^verbatim>\<open>execute_workflow\<close> raises \<^verbatim>\<open>KeyError('entities')\<close>, and the request ends with
  status 500.
\<close>

theorem missing_entities_counterexample:
  "detect_intent_with_bedrock parsing_env (PStr ''my laptop has a problem'') = Inr (PDict partial_fields)
   \<and> execute_workflow parsing_env empty_store (PDict partial_fields)
         (PStr ''my laptop has a problem'') (PBool False)
       = (Inl (KeyError ''entities''), empty_store)
   \<and> handler parsing_env empty_store [(''body'', PDict [(''text'', PStr ''my laptop has a problem'')])]
       = (internal_error parsing_env (KeyError ''entities''), empty_store)
   \<and> statusCode (internal_error parsing_env (KeyError ''entities'')) = 500"
  by code_simp

section \<open>FallbackClassifier: priority of the keyword sets\<close>

text \<open>
  Claim C3. The intent of \<^verbatim>\<open>fallback_intent_detection\<close> is the intent of the first
  keyword set, in the order HR_Onboarding, IT_Ticket, Finance_Expense, Meeting_Schedule,
  that has a word inside the lowered text, and General_Query when no set has one. The text
  \<^verbatim>\<open>reimburse my ticket issue\<close> matches the IT_Ticket and the Finance_Expense sets and is
  classified IT_Ticket.
\<close>

theorem keyword_priority:
  "getitem (fallback_intent_detection text) ''intent'' =
     Inr (PStr (case spec_matching_intents text of [] \<Rightarrow> ''General_Query'' | i # _ \<Rightarrow> i))
   \<and> spec_matching_intents ''reimburse my ticket issue'' = [''IT_Ticket'', ''Finance_Expense'']
   \<and> getitem (fallback_intent_detection ''reimburse my ticket issue'') ''intent'' = Inr (PStr ''IT_Ticket'')"
proof -
  have general: "getitem (fallback_intent_detection text) ''intent'' =
     Inr (PStr (case spec_matching_intents text of [] \<Rightarrow> ''General_Query'' | i # _ \<Rightarrow> i))"
    unfolding fallback_intent_cases
    by (simp add: spec_matching_intents_def spec_keyword_sets_def)
  have both: "spec_matching_intents ''reimburse my ticket issue'' = [''IT_Ticket'', ''Finance_Expense'']"
    by code_simp
  have it: "getitem (fallback_intent_detection ''reimburse my ticket issue'') ''intent'' = Inr (PStr ''IT_Ticket'')"
    by code_simp
  show ?thesis by (intro conjI general both it)
qed

section \<open>IntentClassifier: falling back when the model call fails\<close>

text \<open>
  Claim C4. When the model call fails, the classifier returns, for every text, exactly
  what \<^verbatim>\<open>fallback_intent_detection\<close> returns, and raises nothing. The request then
  goes on as with any classification: with a text that is not empty and two puts that
  succeed, the handler answers 200 with that fallback result under \<^verbatim>\<open>intent\<close>.
\<close>

theorem model_failure_falls_back:
  assumes m: "model_output env = None"
  shows "detect_intent_with_bedrock env (PStr text) = Inr (fallback_intent_detection text)
     \<and> (text \<noteq> [] \<and> parse_body env event = Inr b
          \<and> py_get b ''text'' (PStr []) = Inr (PStr text)
          \<and> put_workflow_error env = None \<and> put_history_error env = None \<longrightarrow>
        (\<exists>msg st'. handler env st event =
           (\<lparr>statusCode = 200,
             responseBody = PDict [(''success'', PBool True),
                                   (''intent'', fallback_intent_detection text),
                                   (''message'', msg),
                                   (''workflowId'', PStr (workflow_uuid env))]\<rparr>, st')))"
proof (intro conjI impI)
  show det: "detect_intent_with_bedrock env (PStr text) = Inr (fallback_intent_detection text)"
    by (simp add: detect_intent_with_bedrock_def m call_fallback_def)
  assume a: "text \<noteq> [] \<and> parse_body env event = Inr b
          \<and> py_get b ''text'' (PStr []) = Inr (PStr text)
          \<and> put_workflow_error env = None \<and> put_history_error env = None"
  then have ne: "text \<noteq> []" and p: "parse_body env event = Inr b"
    and g: "py_get b ''text'' (PStr []) = Inr (PStr text)"
    and pw: "put_workflow_error env = None" and ph: "put_history_error env = None"
    by simp_all
  obtain d where d: "b = PDict d" using py_get_is_dict [OF g] ..
  obtain iv where v: "py_get b ''isVoice'' (PBool False) = Inr iv"
    unfolding d using py_get_dict_total ..
  obtain t w where
    bw: "build_workflow_item env (fallback_intent_detection text) (PStr text) iv = Inr (t, w)"
    using fallback_build_ok by blast
  have "handler env st event =
           (\<lparr>statusCode = 200,
             responseBody = PDict [(''success'', PBool True),
                                   (''intent'', fallback_intent_detection text),
                                   (''message'',
                                      PDict [(''workflowId'', PStr (workflow_uuid env)),
                                             (''message'', PStr (''Workflow '' @ t
                                                @ '' has been initiated and is now in progress.''))]),
                                   (''workflowId'', PStr (workflow_uuid env))]\<rparr>,
            st\<lparr>workflows_table := workflows_table st @ [w],
               workflow_history_table := workflow_history_table st @ [build_history_item env t]\<rparr>)"
    by (simp add: handler_def p g v ne det execute_workflow_ok [OF bw pw ph] del: py_get.simps)
  then show "\<exists>msg st'. handler env st event =
           (\<lparr>statusCode = 200,
             responseBody = PDict [(''success'', PBool True),
                                   (''intent'', fallback_intent_detection text),
                                   (''message'', msg),
                                   (''workflowId'', PStr (workflow_uuid env))]\<rparr>, st')"
    by (intro exI)
qed

theorem model_failure_falls_back_witness:
  "detect_intent_with_bedrock demo_env (PStr ''Please onboard Jane Doe as a developer'')
     = Inr (fallback_intent_detection ''Please onboard Jane Doe as a developer'')
   \<and> (\<exists>msg st'. handler demo_env empty_store
                    [(''body'', PDict [(''text'', PStr ''Please onboard Jane Doe as a developer'')])] =
           (\<lparr>statusCode = 200,
             responseBody =
               PDict [(''success'', PBool True),
                      (''intent'', fallback_intent_detection ''Please onboard Jane Doe as a developer''),
                      (''message'', msg),
                      (''workflowId'', PStr (workflow_uuid demo_env))]\<rparr>, st'))"
proof -
  have m: "model_output demo_env = None" by (simp add: demo_env_def)
  have ne: "''Please onboard Jane Doe as a developer'' \<noteq> []" by simp
  have p: "parse_body demo_env [(''body'', PDict [(''text'', PStr ''Please onboard Jane Doe as a developer'')])]
             = Inr (PDict [(''text'', PStr ''Please onboard Jane Doe as a developer'')])"
    by (simp add: parse_body_def)
  have g: "py_get (PDict [(''text'', PStr ''Please onboard Jane Doe as a developer'')]) ''text'' (PStr [])
             = Inr (PStr ''Please onboard Jane Doe as a developer'')"
    by simp
  have pw: "put_workflow_error demo_env = None" by (simp add: demo_env_def)
  have ph: "put_history_error demo_env = None" by (simp add: demo_env_def)
  note c = model_failure_falls_back [OF m, where ?text = "''Please onboard Jane Doe as a developer''"
      and event = "[(''body'', PDict [(''text'', PStr ''Please onboard Jane Doe as a developer'')])]"
      and b = "PDict [(''text'', PStr ''Please onboard Jane Doe as a developer'')]"
      and st = empty_store]
  show ?thesis
    by (rule conjI [OF conjunct1 [OF c]
          mp [OF conjunct2 [OF c] conjI [OF ne conjI [OF p conjI [OF g conjI [OF pw ph]]]]]])
qed

section \<open>WorkflowOrchestrator: the validation gate\<close>

text \<open>
  Claim C5. For a request body whose \<^verbatim>\<open>text\<close> is missing or the empty string, the
  handler answers 400 with \<^verbatim>\<open>{success: false, error: "Text input is required"}\<close> and
  the store is unchanged: nothing is put into either table.
\<close>

theorem empty_text_rejected:
  assumes p: "parse_body env event = Inr (PDict b)"
    and t: "map_of b ''text'' = None \<or> map_of b ''text'' = Some (PStr [])"
  shows "handler env st event =
           (\<lparr>statusCode = 400,
             responseBody = PDict [(''success'', PBool False),
                                   (''error'', PStr ''Text input is required'')]\<rparr>, st)"
proof -
  have g: "py_get (PDict b) ''text'' (PStr []) = Inr (PStr [])"
    using t by (auto split: option.splits)
  obtain iv where v: "py_get (PDict b) ''isVoice'' (PBool False) = Inr iv"
    by (cases "map_of b ''isVoice''") simp_all
  show ?thesis
    by (simp add: handler_def p g v del: py_get.simps)
qed

theorem empty_text_rejected_witness:
  "handler demo_env empty_store [(''body'', PDict [(''isVoice'', PBool True)])] =
     (\<lparr>statusCode = 400,
       responseBody = PDict [(''success'', PBool False),
                             (''error'', PStr ''Text input is required'')]\<rparr>, empty_store)
   \<and> handler demo_env empty_store [(''text'', PStr []), (''isVoice'', PBool False)] =
     (\<lparr>statusCode = 400,
       responseBody = PDict [(''success'', PBool False),
                             (''error'', PStr ''Text input is required'')]\<rparr>, empty_store)"
proof -
  have p1: "parse_body demo_env [(''body'', PDict [(''isVoice'', PBool True)])]
              = Inr (PDict [(''isVoice'', PBool True)])"
    by (simp add: parse_body_def)
  have t1: "map_of [(''isVoice'', PBool True)] ''text'' = None
              \<or> map_of [(''isVoice'', PBool True)] ''text'' = Some (PStr [])"
    by simp
  have p2: "parse_body demo_env [(''text'', PStr []), (''isVoice'', PBool False)]
              = Inr (PDict [(''text'', PStr []), (''isVoice'', PBool False)])"
    by (simp add: parse_body_def)
  have t2: "map_of [(''text'', PStr []), (''isVoice'', PBool False)] ''text'' = None
              \<or> map_of [(''text'', PStr []), (''isVoice'', PBool False)] ''text'' = Some (PStr [])"
    by simp
  show ?thesis by (rule conjI [OF empty_text_rejected [OF p1 t1] empty_text_rejected [OF p2 t2]])
qed

section \<open>WorkflowMaterializer: the linked write\<close>

text \<open>
  Claim C6. A call of \<^verbatim>\<open>execute_workflow\<close> that returns has put exactly one item
  into the workflows table, with status \<^verbatim>\<open>in_progress\<close> and progress 0, and exactly
  one item into the history table, with action \<^verbatim>\<open>workflow_started\<close> and status
  \<^verbatim>\<open>info\<close>, whose \<^verbatim>\<open>workflowId\<close> is the \<^verbatim>\<open>id\<close> of the workflow item.
\<close>

theorem linked_write:
  assumes "execute_workflow env st intent_result original_text is_voice = (Inr res, st')"
  shows "\<exists>w h. workflows_table st' = workflows_table st @ [w]
           \<and> workflow_history_table st' = workflow_history_table st @ [h]
           \<and> getitem w ''status'' = Inr (PStr ''in_progress'')
           \<and> getitem w ''progress'' = Inr (PInt 0)
           \<and> getitem h ''action'' = Inr (PStr ''workflow_started'')
           \<and> getitem h ''status'' = Inr (PStr ''info'')
           \<and> getitem w ''id'' = Inr (PStr (workflow_uuid env))
           \<and> getitem h ''workflowId'' = getitem w ''id''"
proof -
  from execute_workflow_success [OF assms] obtain t w where
    b: "build_workflow_item env intent_result original_text is_voice = Inr (t, w)" and
    w: "workflows_table st' = workflows_table st @ [w]" and
    h: "workflow_history_table st' = workflow_history_table st @ [build_history_item env t]"
    by auto
  have link: "getitem (build_history_item env t) ''workflowId'' = getitem w ''id''"
    by (simp only: history_item_fields build_item_fields(1) [OF b])
  have "workflows_table st' = workflows_table st @ [w]
           \<and> workflow_history_table st' = workflow_history_table st @ [build_history_item env t]
           \<and> getitem w ''status'' = Inr (PStr ''in_progress'')
           \<and> getitem w ''progress'' = Inr (PInt 0)
           \<and> getitem (build_history_item env t) ''action'' = Inr (PStr ''workflow_started'')
           \<and> getitem (build_history_item env t) ''status'' = Inr (PStr ''info'')
           \<and> getitem w ''id'' = Inr (PStr (workflow_uuid env))
           \<and> getitem (build_history_item env t) ''workflowId'' = getitem w ''id''"
    by (intro conjI w h build_item_fields(3) [OF b] build_item_fields(4) [OF b]
          history_item_fields(2) history_item_fields(3) build_item_fields(1) [OF b] link)
  then show ?thesis by (intro exI)
qed

theorem linked_write_witness:
  "\<exists>w h. workflows_table (snd (execute_workflow demo_env empty_store (PDict demo_result)
                                  (PStr ''offboard Jane Doe'') (PBool False)))
             = workflows_table empty_store @ [w]
           \<and> workflow_history_table (snd (execute_workflow demo_env empty_store (PDict demo_result)
                                  (PStr ''offboard Jane Doe'') (PBool False)))
             = workflow_history_table empty_store @ [h]
           \<and> getitem w ''status'' = Inr (PStr ''in_progress'')
           \<and> getitem w ''progress'' = Inr (PInt 0)
           \<and> getitem h ''action'' = Inr (PStr ''workflow_started'')
           \<and> getitem h ''status'' = Inr (PStr ''info'')
           \<and> getitem w ''id'' = Inr (PStr (workflow_uuid demo_env))
           \<and> getitem h ''workflowId'' = getitem w ''id''"
proof -
  have r: "\<not> isl (fst (execute_workflow demo_env empty_store (PDict demo_result)
                          (PStr ''offboard Jane Doe'') (PBool False)))"
    by code_simp
  show ?thesis by (rule linked_write [OF inr_result [OF r]])
qed

section \<open>WorkflowMaterializer: confidence is not read\<close>

text \<open>
  Claim C7. Two classification results that agree on every key but \<^verbatim>\<open>confidence\<close>
  give, in the same world and on the same store, the same outcome of
  \<^verbatim>\<open>execute_workflow\<close>: the same result or exception and the same items written.
\<close>

theorem confidence_not_used:
  assumes "\<forall>k. k \<noteq> ''confidence'' \<longrightarrow> map_of r1 k = map_of r2 k"
  shows "execute_workflow env st (PDict r1) original_text is_voice
           = execute_workflow env st (PDict r2) original_text is_voice"
proof -
  have i: "map_of r1 ''intent'' = map_of r2 ''intent''" using assms by simp
  have e: "map_of r1 ''entities'' = map_of r2 ''entities''" using assms by simp
  have d: "map_of r1 ''domain'' = map_of r2 ''domain''" using assms by simp
  have "build_workflow_item env (PDict r1) original_text is_voice
          = build_workflow_item env (PDict r2) original_text is_voice"
    by (rule build_same_fields) (simp_all only: getitem.simps i e d)
  then show ?thesis by (simp only: execute_workflow_def)
qed

theorem confidence_not_used_witness:
  "execute_workflow demo_env empty_store (PDict demo_result) (PStr ''offboard Jane Doe'') (PBool False)
     = execute_workflow demo_env empty_store (PDict (AList.update ''confidence'' (PFloat 0.1) demo_result))
         (PStr ''offboard Jane Doe'') (PBool False)
   \<and> AList.update ''confidence'' (PFloat 0.1) demo_result \<noteq> demo_result"
proof -
  have h: "\<forall>k. k \<noteq> ''confidence'' \<longrightarrow>
             map_of demo_result k = map_of (AList.update ''confidence'' (PFloat 0.1) demo_result) k"
    by (simp add: update_conv)
  have d: "AList.update ''confidence'' (PFloat 0.1) demo_result \<noteq> demo_result"
    by code_simp
  show ?thesis by (rule conjI [OF confidence_not_used [OF h] d])
qed

section \<open>WorkflowTemplateCatalog: the generic template\<close>

text \<open>
  Claim C8. For an intent string outside HR_Onboarding, IT_Ticket, Finance_Expense and
  Meeting_Schedule, whatever the entities are, the title is \<^verbatim>\<open>Workflow - <intent>\<close>, the
  description is \<^verbatim>\<open>Processing workflow request.\<close> and the steps are the two generic
  pending steps; and the workflow item that a returning \<^verbatim>\<open>execute_workflow\<close> writes
  for a result with such an intent carries these three values.
\<close>

theorem template_fallback:
  assumes s: "s \<notin> set bespoke_intents"
  shows "get_workflow_title env (PStr s) entities = Inr (''Workflow - '' @ s)
     \<and> get_workflow_description env (PStr s) entities = Inr ''Processing workflow request.''
     \<and> get_workflow_steps (PStr s) =
           Inr (PList [PDict [(''name'', PStr ''Process request''), (''status'', PStr ''pending'')],
                       PDict [(''name'', PStr ''Complete workflow''), (''status'', PStr ''pending'')]])
     \<and> (getitem r ''intent'' = Inr (PStr s) \<and>
         execute_workflow env st r original_text is_voice = (Inr res, st') \<longrightarrow>
         (\<exists>w. workflows_table st' = workflows_table st @ [w]
            \<and> getitem w ''title'' = Inr (PStr (''Workflow - '' @ s))
            \<and> getitem w ''description'' = Inr (PStr ''Processing workflow request.'')
            \<and> getitem w ''steps'' =
                 Inr (PList [PDict [(''name'', PStr ''Process request''), (''status'', PStr ''pending'')],
                             PDict [(''name'', PStr ''Complete workflow''), (''status'', PStr ''pending'')]])))"
proof (intro conjI impI)
  show "get_workflow_title env (PStr s) entities = Inr (''Workflow - '' @ s)"
    by (rule generic_title [OF s])
  show "get_workflow_description env (PStr s) entities = Inr ''Processing workflow request.''"
    by (rule generic_description [OF s])
  show "get_workflow_steps (PStr s) =
           Inr (PList [PDict [(''name'', PStr ''Process request''), (''status'', PStr ''pending'')],
                       PDict [(''name'', PStr ''Complete workflow''), (''status'', PStr ''pending'')]])"
    by (rule generic_steps [OF s])
next
  assume a: "getitem r ''intent'' = Inr (PStr s) \<and>
         execute_workflow env st r original_text is_voice = (Inr res, st')"
  from execute_workflow_success [OF conjunct2 [OF a]] obtain t w where
    b: "build_workflow_item env r original_text is_voice = Inr (t, w)" and
    w: "workflows_table st' = workflows_table st @ [w]"
    by auto
  have "workflows_table st' = workflows_table st @ [w]
            \<and> getitem w ''title'' = Inr (PStr (''Workflow - '' @ s))
            \<and> getitem w ''description'' = Inr (PStr ''Processing workflow request.'')
            \<and> getitem w ''steps'' =
                 Inr (PList [PDict [(''name'', PStr ''Process request''), (''status'', PStr ''pending'')],
                             PDict [(''name'', PStr ''Complete workflow''), (''status'', PStr ''pending'')]])"
    by (rule conjI [OF w conjI [OF build_item_generic(1) [OF b conjunct1 [OF a] s]
          conjI [OF build_item_generic(2) [OF b conjunct1 [OF a] s]
            build_item_generic(3) [OF b conjunct1 [OF a] s]]]])
  then show "\<exists>w. workflows_table st' = workflows_table st @ [w]
            \<and> getitem w ''title'' = Inr (PStr (''Workflow - '' @ s))
            \<and> getitem w ''description'' = Inr (PStr ''Processing workflow request.'')
            \<and> getitem w ''steps'' =
                 Inr (PList [PDict [(''name'', PStr ''Process request''), (''status'', PStr ''pending'')],
                             PDict [(''name'', PStr ''Complete workflow''), (''status'', PStr ''pending'')]])"
    by (intro exI)
qed

theorem template_fallback_witness:
  "get_workflow_title demo_env (PStr ''HR_Offboarding'') PNone = Inr ''Workflow - HR_Offboarding''
   \<and> get_workflow_description demo_env (PStr ''HR_Offboarding'') PNone = Inr ''Processing workflow request.''
   \<and> (\<exists>w. workflows_table (snd (execute_workflow demo_env empty_store (PDict demo_result)
                                  (PStr ''offboard Jane Doe'') (PBool False)))
             = workflows_table empty_store @ [w]
          \<and> getitem w ''title'' = Inr (PStr ''Workflow - HR_Offboarding'')
          \<and> getitem w ''description'' = Inr (PStr ''Processing workflow request.'')
          \<and> getitem w ''steps'' =
               Inr (PList [PDict [(''name'', PStr ''Process request''), (''status'', PStr ''pending'')],
                           PDict [(''name'', PStr ''Complete workflow''), (''status'', PStr ''pending'')]]))"
proof -
  have s: "''HR_Offboarding'' \<notin> set bespoke_intents" by (simp add: bespoke_intents_def)
  have r: "\<not> isl (fst (execute_workflow demo_env empty_store (PDict demo_result)
                          (PStr ''offboard Jane Doe'') (PBool False)))"
    by code_simp
  have i: "getitem (PDict demo_result) ''intent'' = Inr (PStr ''HR_Offboarding'')"
    by (simp add: demo_result_def)
  note c = template_fallback [OF s, where env = demo_env and entities = PNone and r = "PDict demo_result"
      and st = empty_store and original_text = "PStr ''offboard Jane Doe''" and is_voice = "PBool False"
      and res = "projr (fst (execute_workflow demo_env empty_store (PDict demo_result)
                          (PStr ''offboard Jane Doe'') (PBool False)))"
      and st' = "snd (execute_workflow demo_env empty_store (PDict demo_result)
                          (PStr ''offboard Jane Doe'') (PBool False))"]
  have t: "get_workflow_title demo_env (PStr ''HR_Offboarding'') PNone = Inr ''Workflow - HR_Offboarding''"
    using conjunct1 [OF c] by simp
  have d: "get_workflow_description demo_env (PStr ''HR_Offboarding'') PNone
             = Inr ''Processing workflow request.''"
    by (rule conjunct1 [OF conjunct2 [OF c]])
  have w: "\<exists>w. workflows_table (snd (execute_workflow demo_env empty_store (PDict demo_result)
                                  (PStr ''offboard Jane Doe'') (PBool False)))
             = workflows_table empty_store @ [w]
          \<and> getitem w ''title'' = Inr (PStr ''Workflow - HR_Offboarding'')
          \<and> getitem w ''description'' = Inr (PStr ''Processing workflow request.'')
          \<and> getitem w ''steps'' =
               Inr (PList [PDict [(''name'', PStr ''Process request''), (''status'', PStr ''pending'')],
                           PDict [(''name'', PStr ''Complete workflow''), (''status'', PStr ''pending'')]])"
    using mp [OF conjunct2 [OF conjunct2 [OF conjunct2 [OF c]]] conjI [OF i inr_result [OF r]]]
    by simp
  show ?thesis by (rule conjI [OF t conjI [OF d w]])
qed

section \<open>EntityExtractor: only the three heuristics produce entries\<close>

text \<open>
  Claim C9. The keys of the extractor's result are the requested types whose heuristic
  matches the text, so they lie among \<^verbatim>\<open>employee_name\<close>, \<^verbatim>\<open>amount\<close> and
  \<^verbatim>\<open>role\<close>; the type lists of the IT_Ticket and Meeting_Schedule branches give the
  empty dictionary on every text, and a fallback result with one of these intents has the
  empty dictionary, not a missing or null value, under \<^verbatim>\<open>entities\<close>.
\<close>

theorem extract_only_heuristics:
  "fst ` set (extract_entities text wanted) = {k \<in> set wanted. heuristic_matches text k}
   \<and> fst ` set (extract_entities text wanted) \<subseteq> set wanted \<inter> {''employee_name'', ''amount'', ''role''}
   \<and> fst ` set (extract_entities text wanted)
         \<inter> {''start_date'', ''issue_type'', ''priority'', ''description'', ''category'',
              ''date'', ''time'', ''attendees'', ''subject''} = {}
   \<and> extract_entities text [''issue_type'', ''priority'', ''description''] = []
   \<and> extract_entities text [''date'', ''time'', ''attendees'', ''subject''] = []
   \<and> (getitem (fallback_intent_detection text) ''intent'' = Inr (PStr ''IT_Ticket'') \<or>
       getitem (fallback_intent_detection text) ''intent'' = Inr (PStr ''Meeting_Schedule'')
       \<longrightarrow> getitem (fallback_intent_detection text) ''entities'' = Inr (PDict []))"
proof -
  have keys: "fst ` set (extract_entities text wanted) = {k \<in> set wanted. heuristic_matches text k}"
    by (simp add: extract_entities_def keys_extract_loop)
  have sub: "fst ` set (extract_entities text wanted) \<subseteq> set wanted \<inter> {''employee_name'', ''amount'', ''role''}"
    unfolding keys by (auto simp: heuristic_matches_def)
  have none: "fst ` set (extract_entities text wanted)
         \<inter> {''start_date'', ''issue_type'', ''priority'', ''description'', ''category'',
              ''date'', ''time'', ''attendees'', ''subject''} = {}"
    unfolding keys by (auto simp: heuristic_matches_def)
  have ent: "getitem (fallback_intent_detection text) ''intent'' = Inr (PStr ''IT_Ticket'') \<or>
       getitem (fallback_intent_detection text) ''intent'' = Inr (PStr ''Meeting_Schedule'')
       \<longrightarrow> getitem (fallback_intent_detection text) ''entities'' = Inr (PDict [])"
    unfolding fallback_intent_cases fallback_entities_cases extract_it extract_meeting
    by (simp add: str_dict_def)
  show ?thesis by (intro conjI keys sub none extract_it extract_meeting ent)
qed

theorem extract_only_heuristics_witness:
  "getitem (fallback_intent_detection ''schedule a meeting with Jane Doe for $20'') ''intent''
     = Inr (PStr ''Meeting_Schedule'')
   \<and> getitem (fallback_intent_detection ''schedule a meeting with Jane Doe for $20'') ''entities''
     = Inr (PDict [])"
proof -
  have a: "getitem (fallback_intent_detection ''schedule a meeting with Jane Doe for $20'') ''intent''
     = Inr (PStr ''Meeting_Schedule'')" by code_simp
  have b: "getitem (fallback_intent_detection ''schedule a meeting with Jane Doe for $20'') ''entities''
     = Inr (PDict [])"
    by (rule mp [OF conjunct2 [OF conjunct2 [OF conjunct2 [OF conjunct2 [OF conjunct2
          [OF extract_only_heuristics [of "''schedule a meeting with Jane Doe for $20''" "[]"]]]]]]
          disjI2 [OF a]])
  show ?thesis by (intro conjI a b)
qed

section \<open>FallbackClassifier: keywords match inside words\<close>

text \<open>
  Claim C10. A keyword is looked for as a substring of the lowered text: every text that
  contains \<^verbatim>\<open>joint\<close> or \<^verbatim>\<open>rejoined\<close> is classified HR_Onboarding, and every text
  that contains \<^verbatim>\<open>errors\<close> or \<^verbatim>\<open>terrorist\<close> and no keyword of the HR_Onboarding
  set is classified IT_Ticket.
\<close>

theorem keyword_substring_match:
  "(contains text ''joint'' \<or> contains text ''rejoined'' \<longrightarrow>
      getitem (fallback_intent_detection text) ''intent'' = Inr (PStr ''HR_Onboarding''))
   \<and> ((contains text ''errors'' \<or> contains text ''terrorist'') \<and>
       \<not> any_in [''onboard'', ''hire'', ''new employee'', ''join''] (str_lower text) \<longrightarrow>
      getitem (fallback_intent_detection text) ''intent'' = Inr (PStr ''IT_Ticket''))"
proof -
  have l1: "str_lower ''joint'' = ''joint''" by code_simp
  have l2: "str_lower ''rejoined'' = ''rejoined''" by code_simp
  have l3: "str_lower ''errors'' = ''errors''" by code_simp
  have l4: "str_lower ''terrorist'' = ''terrorist''" by code_simp
  have c1: "contains ''joint'' ''join''" by code_simp
  have c2: "contains ''rejoined'' ''join''" by code_simp
  have c3: "contains ''errors'' ''error''" by code_simp
  have c4: "contains ''terrorist'' ''error''" by code_simp
  have hr: "getitem (fallback_intent_detection text) ''intent'' = Inr (PStr ''HR_Onboarding'')"
    if "contains text ''joint'' \<or> contains text ''rejoined''"
  proof -
    from that have "contains (str_lower text) ''join''"
    proof
      assume "contains text ''joint''"
      then show ?thesis by (rule lowercase_word_in_text [OF _ l1 c1])
    next
      assume "contains text ''rejoined''"
      then show ?thesis by (rule lowercase_word_in_text [OF _ l2 c2])
    qed
    then have "any_in [''onboard'', ''hire'', ''new employee'', ''join''] (str_lower text)"
      by (simp add: any_in_iff)
    then show ?thesis by (rule hr_branch)
  qed
  have it: "getitem (fallback_intent_detection text) ''intent'' = Inr (PStr ''IT_Ticket'')"
    if "contains text ''errors'' \<or> contains text ''terrorist''"
      and "\<not> any_in [''onboard'', ''hire'', ''new employee'', ''join''] (str_lower text)"
  proof -
    from that(1) have "contains (str_lower text) ''error''"
    proof
      assume "contains text ''errors''"
      then show ?thesis by (rule lowercase_word_in_text [OF _ l3 c3])
    next
      assume "contains text ''terrorist''"
      then show ?thesis by (rule lowercase_word_in_text [OF _ l4 c4])
    qed
    then have "any_in [''ticket'', ''issue'', ''problem'', ''bug'', ''error''] (str_lower text)"
      by (simp add: any_in_iff)
    with that(2) show ?thesis by (rule it_branch)
  qed
  show ?thesis
  proof (intro conjI impI)
    assume "contains text ''joint'' \<or> contains text ''rejoined''"
    then show "getitem (fallback_intent_detection text) ''intent'' = Inr (PStr ''HR_Onboarding'')"
      by (rule hr)
  next
    assume a: "(contains text ''errors'' \<or> contains text ''terrorist'') \<and>
       \<not> any_in [''onboard'', ''hire'', ''new employee'', ''join''] (str_lower text)"
    show "getitem (fallback_intent_detection text) ''intent'' = Inr (PStr ''IT_Ticket'')"
      by (rule it [OF conjunct1 [OF a] conjunct2 [OF a]])
  qed
qed

theorem keyword_substring_match_witness:
  "contains ''The joint venture failed'' ''joint''
   \<and> getitem (fallback_intent_detection ''The joint venture failed'') ''intent'' = Inr (PStr ''HR_Onboarding'')
   \<and> contains ''Too many errors today'' ''errors''
   \<and> \<not> any_in [''onboard'', ''hire'', ''new employee'', ''join''] (str_lower ''Too many errors today'')
   \<and> getitem (fallback_intent_detection ''Too many errors today'') ''intent'' = Inr (PStr ''IT_Ticket'')"
proof -
  have a: "contains ''The joint venture failed'' ''joint''" by code_simp
  have b: "contains ''Too many errors today'' ''errors''" by code_simp
  have c: "\<not> any_in [''onboard'', ''hire'', ''new employee'', ''join''] (str_lower ''Too many errors today'')"
    by code_simp
  have d: "getitem (fallback_intent_detection ''The joint venture failed'') ''intent'' = Inr (PStr ''HR_Onboarding'')"
    by (rule mp [OF conjunct1 [OF keyword_substring_match [of "''The joint venture failed''"]] disjI1 [OF a]])
  have e: "getitem (fallback_intent_detection ''Too many errors today'') ''intent'' = Inr (PStr ''IT_Ticket'')"
    by (rule mp [OF conjunct2 [OF keyword_substring_match [of "''Too many errors today''"]] conjI [OF disjI1 [OF b] c]])
  show ?thesis by (intro conjI a b c d e)
qed

end
